theory Spec2Isabelle
  imports Main "HOL-Library.Sublist"
begin

section \<open>Faculty feedback backend: a shallow embedding of app.py\<close>

text \<open>
  The Flask application of \<^verbatim>\<open>src/app.py\<close> is modelled as pure functions. Everything
  a handler does besides returning a value is explicit:
  \<^item> the MySQL server and the driver are an oracle (the record \<open>db\<close>): whether
    \<^verbatim>\<open>mysql.connector.connect\<close> succeeds, what \<^verbatim>\<open>cursor.execute\<close>,
    \<^verbatim>\<open>cursor.callproc\<close> and \<^verbatim>\<open>conn.commit\<close> answer or raise;
  \<^item> every call a handler makes on the driver is appended to a trace of events, in
    program order;
  \<^item> the Flask session is a dictionary that a handler takes and returns;
  \<^item> an exception that leaves a handler is the outcome \<open>Raised\<close>.
  The calls \<^verbatim>\<open>conn.cursor\<close>, \<^verbatim>\<open>fetchone\<close>, \<^verbatim>\<open>fetchall\<close> and the two
  \<^verbatim>\<open>close\<close> calls are taken not to raise on an established connection, and the
  request body is taken to be a JSON object. Numbers are integers; the handlers pass
  them on without computing with them. The admin provisioning script
  \<^verbatim>\<open>src/create_admin.py\<close> is not an endpoint and is not modelled.
\<close>

subsection \<open>Values\<close>

datatype pyval =
    PNone
  | PBool bool
  | PInt int
  | PStr string
  | PList "pyval list"
  | PDict "(string \<times> pyval) list"

text \<open>Python truthiness, as used by \<^verbatim>\<open>if not student_id\<close> and \<^verbatim>\<open>x if x else None\<close>.\<close>

fun py_truthy :: "pyval \<Rightarrow> bool" where
  "py_truthy PNone = False"
| "py_truthy (PBool b) = b"
| "py_truthy (PInt i) = (i \<noteq> 0)"
| "py_truthy (PStr s) = (s \<noteq> [])"
| "py_truthy (PList xs) = (xs \<noteq> [])"
| "py_truthy (PDict kvs) = (kvs \<noteq> [])"

text \<open>A row of a \<^verbatim>\<open>dictionary=True\<close> cursor: column name and value.\<close>

type_synonym row = "(string \<times> pyval) list"

datatype exn =
    AttributeError string
  | KeyError string
  | Error string

definition quote :: string where
  "quote = [CHR 0x27]"

text \<open>\<^verbatim>\<open>str(e)\<close>: the message; a \<^verbatim>\<open>KeyError\<close> prints the repr of its key.\<close>

fun str_exn :: "exn \<Rightarrow> string" where
  "str_exn (AttributeError m) = m"
| "str_exn (KeyError k) = quote @ k @ quote"
| "str_exn (Error m) = m"

text \<open>What \<^verbatim>\<open>None.cursor\<close> raises.\<close>

definition none_has_no_cursor :: exn where
  "none_has_no_cursor =
     AttributeError (quote @ ''NoneType'' @ quote @ '' object has no attribute '' @ quote @ ''cursor'' @ quote)"

text \<open>\<^verbatim>\<open>d.get(k)\<close> on a dictionary: \<^verbatim>\<open>None\<close> when the key is missing.\<close>

definition dict_get :: "(string \<rightharpoonup> pyval) \<Rightarrow> string \<Rightarrow> pyval" where
  "dict_get m k = (case m k of None \<Rightarrow> PNone | Some v \<Rightarrow> v)"

text \<open>\<^verbatim>\<open>request.args.get(k)\<close>: a string, or \<^verbatim>\<open>None\<close>.\<close>

definition args_get :: "(string \<rightharpoonup> string) \<Rightarrow> string \<Rightarrow> pyval" where
  "args_get m k = (case m k of None \<Rightarrow> PNone | Some s \<Rightarrow> PStr s)"

text \<open>\<^verbatim>\<open>row[k]\<close>: raises \<^verbatim>\<open>KeyError\<close> when the column is missing.\<close>

definition getitem :: "row \<Rightarrow> string \<Rightarrow> exn + pyval" where
  "getitem r k = (case map_of r k of None \<Rightarrow> Inl (KeyError k) | Some v \<Rightarrow> Inr v)"

subsection \<open>The driver, the library and the request\<close>

datatype event =
    Connect
  | ConnectFailed string
  | Cursor
  | Execute string "pyval list"
  | Callproc string "pyval list"
  | Commit
  | StoredResults
  | Fetchone
  | Fetchall
  | CursorClose
  | ConnClose

record db =
  connect_error :: "(nat \<times> string) option"
  run_execute :: "string \<Rightarrow> pyval list \<Rightarrow> exn + row list"
  run_callproc :: "string \<Rightarrow> pyval list \<Rightarrow> exn + row list list"
  run_commit :: "exn option"

text \<open>
  \<open>connect_error\<close> is the \<^verbatim>\<open>mysql.connector.Error\<close> of the connection attempt
  (errno and text) or \<open>None\<close> when it succeeds; \<open>run_execute\<close> gives the rows of a
  statement or the exception it raises; \<open>run_callproc\<close> gives the result sets of a
  procedure or its exception; \<open>run_commit\<close> is the exception of \<^verbatim>\<open>conn.commit\<close>,
  if any.
\<close>

record werkzeug =
  generate_password_hash :: "pyval \<Rightarrow> exn + pyval"
  check_password_hash :: "pyval \<Rightarrow> pyval \<Rightarrow> exn + bool"

datatype endpoint =
    StudentRegister
  | StudentLogin
  | StudentDashboard
  | StudentFeedback
  | Home
  | AdminLogin
  | AdminDashboard
  | AdminTeacherSummary
  | ApiDropdowns

record request =
  endpoint :: endpoint
  path_id :: nat
  json :: "string \<rightharpoonup> pyval"
  args :: "string \<rightharpoonup> string"

type_synonym session = "string \<rightharpoonup> pyval"

datatype outcome =
    Response pyval nat
  | Raised exn

record result =
  outcome :: outcome
  session :: session
  trace :: "event list"

subsection \<open>The SQL texts of the source\<close>

definition sql_student_register :: string where
  "sql_student_register =
     ''\<newline>            INSERT INTO students (first_name, email, password_hash, roll_number, branch_id, year_id, semester_id)\<newline>            VALUES (%s,%s,%s,%s,%s,%s,%s)\<newline>        ''"

definition sql_student_login :: string where
  "sql_student_login = ''SELECT * FROM students WHERE roll_number=%s''"

definition sql_student_dashboard :: string where
  "sql_student_dashboard =
     ''\<newline>        SELECT ta.assignment_id, s.code AS subject_code, s.name AS subject_name, \<newline>'' @
     ''               CONCAT(t.first_name,'' @ quote @ '' '' @ quote @ '',COALESCE(t.last_name,'' @ quote @ quote @ '')) AS teacher_name\<newline>'' @
     ''        FROM students st\<newline>'' @
     ''        JOIN teacher_assignments ta \<newline>'' @
     ''            ON ta.branch_id=st.branch_id AND ta.year_id=st.year_id AND ta.semester_id=st.semester_id\<newline>'' @
     ''        JOIN subjects s ON s.subject_id=ta.subject_id\<newline>'' @
     ''        JOIN teachers t ON t.teacher_id=ta.teacher_id\<newline>'' @
     ''        WHERE st.student_id=%s\<newline>    ''"

definition proc_submit_feedback :: string where
  "proc_submit_feedback = ''submit_feedback''"

definition sql_admin_login :: string where
  "sql_admin_login = ''SELECT * FROM admins WHERE username=%s''"

definition sql_admin_dashboard :: string where
  "sql_admin_dashboard =
     ''\<newline>        SELECT t.teacher_id, CONCAT(t.first_name,'' @ quote @ '' '' @ quote @ '',COALESCE(t.last_name,'' @ quote @ quote @ '')) AS teacher_name,\<newline>'' @
     ''               s.subject_id, s.name AS subject_name, ts.avg_overall_rating, ts.total_feedbacks\<newline>'' @
     ''        FROM teacher_assignments ta\<newline>'' @
     ''        JOIN teachers t ON t.teacher_id = ta.teacher_id\<newline>'' @
     ''        JOIN subjects s ON s.subject_id = ta.subject_id\<newline>'' @
     ''        LEFT JOIN teacher_stats ts ON ts.teacher_id = t.teacher_id\<newline>'' @
     ''        WHERE ta.branch_id=%s AND ta.year_id=%s AND ta.semester_id=%s\<newline>    ''"

definition proc_generate_teacher_summary :: string where
  "proc_generate_teacher_summary = ''generate_teacher_summary''"

definition sql_branches :: string where
  "sql_branches = ''SELECT branch_id AS id, name FROM branches ORDER BY name''"

definition sql_years :: string where
  "sql_years = ''SELECT year_id AS id, year_label AS label FROM academic_years ORDER BY year_id''"

definition sql_semesters :: string where
  "sql_semesters = ''SELECT semester_id AS id, semester_label AS label FROM semesters ORDER BY ordinal''"

subsection \<open>Database utilities\<close>

datatype conn = Conn

definition ER_ACCESS_DENIED_ERROR :: nat where
  "ER_ACCESS_DENIED_ERROR = 1045"

definition ER_BAD_DB_ERROR :: nat where
  "ER_BAD_DB_ERROR = 1049"

text \<open>
  \<^verbatim>\<open>get_db_connection\<close>: the connection, or \<^verbatim>\<open>None\<close> after printing a line when
  the driver raises \<^verbatim>\<open>mysql.connector.Error\<close>. The printed line is kept in the event.
\<close>

definition get_db_connection :: "db \<Rightarrow> conn option \<times> event list" where
  "get_db_connection d =
     (case connect_error d of
        None \<Rightarrow> (Some Conn, [Connect])
      | Some (errno, msg) \<Rightarrow>
          (None,
           [ConnectFailed
              (if errno = ER_ACCESS_DENIED_ERROR then ''DB user/password error''
               else if errno = ER_BAD_DB_ERROR then ''Database does not exist''
               else msg)]))"

text \<open>
  \<^verbatim>\<open>call_stored_procedure\<close>: \<^verbatim>\<open>conn.cursor\<close> is outside the \<^verbatim>\<open>try\<close>, so a
  \<^verbatim>\<open>None\<close> connection raises before anything is opened; inside the \<^verbatim>\<open>try\<close>
  the call, the commit and the loop over the result sets run in this order, and the
  \<^verbatim>\<open>finally\<close> closes cursor and connection on every path. The loop keeps the rows
  of the last result set.
\<close>

definition call_stored_procedure ::
  "db \<Rightarrow> string \<Rightarrow> pyval list \<Rightarrow> (exn + row list option) \<times> event list" where
  "call_stored_procedure d proc_name params =
     (let (conn, t0) = get_db_connection d in
      case conn of
        None \<Rightarrow> (Inl none_has_no_cursor, t0)
      | Some c \<Rightarrow>
          (let t1 = t0 @ [Cursor, Callproc proc_name params] in
           case run_callproc d proc_name params of
             Inl e \<Rightarrow> (Inl e, t1 @ [CursorClose, ConnClose])
           | Inr results \<Rightarrow>
               (case run_commit d of
                  Some e \<Rightarrow> (Inl e, t1 @ [Commit, CursorClose, ConnClose])
                | None \<Rightarrow>
                    (Inr (foldl (\<lambda>result res. Some res) None results),
                     t1 @ [Commit, StoredResults] @ map (\<lambda>res. Fetchall) results
                        @ [CursorClose, ConnClose]))))"

text \<open>\<^verbatim>\<open>cursor.fetchone()\<close>: the first row, or \<^verbatim>\<open>None\<close>.\<close>

definition fetchone :: "row list \<Rightarrow> row option" where
  "fetchone rows = (case rows of [] \<Rightarrow> None | r # _ \<Rightarrow> Some r)"

text \<open>\<^verbatim>\<open>jsonify\<close> of a list of rows.\<close>

definition jsonify_rows :: "row list \<Rightarrow> pyval" where
  "jsonify_rows rows = PList (map PDict rows)"

definition status_message :: "string \<Rightarrow> string \<Rightarrow> pyval" where
  "status_message st msg = PDict [(''status'', PStr st), (''message'', PStr msg)]"

subsection \<open>Student routes\<close>

text \<open>
  \<^verbatim>\<open>POST /student/register\<close>. The password is hashed before the connection is
  asked for; \<^verbatim>\<open>conn.cursor\<close> is outside the \<^verbatim>\<open>try\<close>; the \<^verbatim>\<open>except\<close>
  covers \<^verbatim>\<open>execute\<close> and \<^verbatim>\<open>commit\<close>, and the \<^verbatim>\<open>finally\<close> closes both.
\<close>

definition student_register :: "werkzeug \<Rightarrow> db \<Rightarrow> request \<Rightarrow> session \<Rightarrow> result" where
  "student_register lib d req sess =
     (let data = json req;
          name = dict_get data ''name'';
          email = dict_get data ''email'';
          password = dict_get data ''password'';
          roll_number = dict_get data ''roll_number'';
          branch_id = dict_get data ''branch_id'';
          year_id = dict_get data ''year_id'';
          semester_id = dict_get data ''semester_id''
      in
      case generate_password_hash lib password of
        Inl e \<Rightarrow> \<lparr>outcome = Raised e, session = sess, trace = []\<rparr>
      | Inr hashed_password \<Rightarrow>
          (let (conn, t0) = get_db_connection d in
           case conn of
             None \<Rightarrow> \<lparr>outcome = Raised none_has_no_cursor, session = sess, trace = t0\<rparr>
           | Some c \<Rightarrow>
               (let params = [name, email, hashed_password, roll_number, branch_id, year_id, semester_id];
                    t1 = t0 @ [Cursor, Execute sql_student_register params]
                in
                case run_execute d sql_student_register params of
                  Inl e \<Rightarrow>
                    \<lparr>outcome = Response (status_message ''error'' (str_exn e)) 200,
                     session = sess, trace = t1 @ [CursorClose, ConnClose]\<rparr>
                | Inr rows \<Rightarrow>
                    (case run_commit d of
                       Some e \<Rightarrow>
                         \<lparr>outcome = Response (status_message ''error'' (str_exn e)) 200,
                          session = sess, trace = t1 @ [Commit, CursorClose, ConnClose]\<rparr>
                     | None \<Rightarrow>
                         \<lparr>outcome = Response (status_message ''success'' ''Student registered successfully'') 200,
                          session = sess, trace = t1 @ [Commit, CursorClose, ConnClose]\<rparr>))))"

text \<open>
  \<^verbatim>\<open>POST /student/login\<close>. No \<^verbatim>\<open>try\<close>: an exception of \<^verbatim>\<open>execute\<close> leaves
  the handler, with cursor and connection still open. \<^verbatim>\<open>student and check(...)\<close>
  short-circuits on a missing or empty row.
\<close>

definition invalid_credentials :: "session \<Rightarrow> event list \<Rightarrow> result" where
  "invalid_credentials sess t =
     \<lparr>outcome = Response (status_message ''error'' ''Invalid credentials'') 200,
      session = sess, trace = t\<rparr>"

definition student_login :: "werkzeug \<Rightarrow> db \<Rightarrow> request \<Rightarrow> session \<Rightarrow> result" where
  "student_login lib d req sess =
     (let data = json req;
          roll_number = dict_get data ''roll_number'';
          password = dict_get data ''password'';
          (conn, t0) = get_db_connection d
      in
      case conn of
        None \<Rightarrow> \<lparr>outcome = Raised none_has_no_cursor, session = sess, trace = t0\<rparr>
      | Some c \<Rightarrow>
          (let t1 = t0 @ [Cursor, Execute sql_student_login [roll_number]] in
           case run_execute d sql_student_login [roll_number] of
             Inl e \<Rightarrow> \<lparr>outcome = Raised e, session = sess, trace = t1\<rparr>
           | Inr rows \<Rightarrow>
               (let student = fetchone rows;
                    t2 = t1 @ [Fetchone, CursorClose, ConnClose]
                in
                case student of
                  None \<Rightarrow> invalid_credentials sess t2
                | Some r \<Rightarrow>
                    if r = [] then invalid_credentials sess t2
                    else
                      (case getitem r ''password_hash'' of
                         Inl e \<Rightarrow> \<lparr>outcome = Raised e, session = sess, trace = t2\<rparr>
                       | Inr h \<Rightarrow>
                           (case check_password_hash lib h password of
                              Inl e \<Rightarrow> \<lparr>outcome = Raised e, session = sess, trace = t2\<rparr>
                            | Inr ok \<Rightarrow>
                                if ok then
                                  (case getitem r ''student_id'' of
                                     Inl e \<Rightarrow> \<lparr>outcome = Raised e, session = sess, trace = t2\<rparr>
                                   | Inr sid \<Rightarrow>
                                       \<lparr>outcome =
                                          Response
                                            (PDict [(''status'', PStr ''success''),
                                                    (''message'', PStr ''Login successful''),
                                                    (''student_id'', sid)]) 200,
                                        session = sess(''student_id'' \<mapsto> sid),
                                        trace = t2\<rparr>)
                                else invalid_credentials sess t2)))))"

definition not_logged_in :: "session \<Rightarrow> result" where
  "not_logged_in sess =
     \<lparr>outcome = Response (status_message ''error'' ''Not logged in'') 401,
      session = sess, trace = []\<rparr>"

text \<open>\<^verbatim>\<open>GET /student/dashboard\<close>.\<close>

definition student_dashboard :: "db \<Rightarrow> session \<Rightarrow> result" where
  "student_dashboard d sess =
     (let student_id = dict_get sess ''student_id'' in
      if \<not> py_truthy student_id then not_logged_in sess
      else
        (let (conn, t0) = get_db_connection d in
         case conn of
           None \<Rightarrow> \<lparr>outcome = Raised none_has_no_cursor, session = sess, trace = t0\<rparr>
         | Some c \<Rightarrow>
             (let t1 = t0 @ [Cursor, Execute sql_student_dashboard [student_id]] in
              case run_execute d sql_student_dashboard [student_id] of
                Inl e \<Rightarrow> \<lparr>outcome = Raised e, session = sess, trace = t1\<rparr>
              | Inr rows \<Rightarrow>
                  \<lparr>outcome = Response (jsonify_rows rows) 200, session = sess,
                   trace = t1 @ [Fetchall, CursorClose, ConnClose]\<rparr>)))"

text \<open>
  \<^verbatim>\<open>POST /student/feedback/<int:assignment_id>\<close>. The whole of
  \<^verbatim>\<open>call_stored_procedure\<close> is inside the \<^verbatim>\<open>try\<close>, so whatever it raises is
  turned into the error payload.
\<close>

definition student_feedback :: "db \<Rightarrow> request \<Rightarrow> session \<Rightarrow> result" where
  "student_feedback d req sess =
     (let assignment_id = PInt (int (path_id req));
          student_id = dict_get sess ''student_id''
      in
      if \<not> py_truthy student_id then not_logged_in sess
      else
        (let data = json req;
             rating_knowledge = dict_get data ''rating_knowledge'';
             rating_communication = dict_get data ''rating_communication'';
             rating_punctuality = dict_get data ''rating_punctuality'';
             rating_overall = dict_get data ''rating_overall'';
             comment = dict_get data ''comment''
         in
         case call_stored_procedure d proc_submit_feedback
                [student_id, assignment_id, rating_knowledge, rating_communication,
                 rating_punctuality, rating_overall, comment] of
           (Inr res, t) \<Rightarrow>
             \<lparr>outcome = Response (status_message ''success'' ''Feedback submitted successfully'') 200,
              session = sess, trace = t\<rparr>
         | (Inl e, t) \<Rightarrow>
             \<lparr>outcome = Response (status_message ''error'' (str_exn e)) 200,
              session = sess, trace = t\<rparr>))"

subsection \<open>Admin routes\<close>

definition home :: "session \<Rightarrow> result" where
  "home sess =
     \<lparr>outcome = Response (PStr ''Faculty Feedback System Backend is running!'') 200,
      session = sess, trace = []\<rparr>"

text \<open>\<^verbatim>\<open>POST /admin/login\<close>: the shape of the student login, without the id in the answer.\<close>

definition admin_login :: "werkzeug \<Rightarrow> db \<Rightarrow> request \<Rightarrow> session \<Rightarrow> result" where
  "admin_login lib d req sess =
     (let data = json req;
          username = dict_get data ''username'';
          password = dict_get data ''password'';
          (conn, t0) = get_db_connection d
      in
      case conn of
        None \<Rightarrow> \<lparr>outcome = Raised none_has_no_cursor, session = sess, trace = t0\<rparr>
      | Some c \<Rightarrow>
          (let t1 = t0 @ [Cursor, Execute sql_admin_login [username]] in
           case run_execute d sql_admin_login [username] of
             Inl e \<Rightarrow> \<lparr>outcome = Raised e, session = sess, trace = t1\<rparr>
           | Inr rows \<Rightarrow>
               (let admin = fetchone rows;
                    t2 = t1 @ [Fetchone, CursorClose, ConnClose]
                in
                case admin of
                  None \<Rightarrow> invalid_credentials sess t2
                | Some r \<Rightarrow>
                    if r = [] then invalid_credentials sess t2
                    else
                      (case getitem r ''password_hash'' of
                         Inl e \<Rightarrow> \<lparr>outcome = Raised e, session = sess, trace = t2\<rparr>
                       | Inr h \<Rightarrow>
                           (case check_password_hash lib h password of
                              Inl e \<Rightarrow> \<lparr>outcome = Raised e, session = sess, trace = t2\<rparr>
                            | Inr ok \<Rightarrow>
                                if ok then
                                  (case getitem r ''admin_id'' of
                                     Inl e \<Rightarrow> \<lparr>outcome = Raised e, session = sess, trace = t2\<rparr>
                                   | Inr aid \<Rightarrow>
                                       \<lparr>outcome = Response (status_message ''success'' ''Login successful'') 200,
                                        session = sess(''admin_id'' \<mapsto> aid),
                                        trace = t2\<rparr>)
                                else invalid_credentials sess t2)))))"

text \<open>\<^verbatim>\<open>GET /admin/dashboard\<close>: no session check.\<close>

definition admin_dashboard :: "db \<Rightarrow> request \<Rightarrow> session \<Rightarrow> result" where
  "admin_dashboard d req sess =
     (let branch_id = args_get (args req) ''branch_id'';
          year_id = args_get (args req) ''year_id'';
          semester_id = args_get (args req) ''semester_id'';
          (conn, t0) = get_db_connection d
      in
      case conn of
        None \<Rightarrow> \<lparr>outcome = Raised none_has_no_cursor, session = sess, trace = t0\<rparr>
      | Some c \<Rightarrow>
          (let params = [branch_id, year_id, semester_id];
               t1 = t0 @ [Cursor, Execute sql_admin_dashboard params]
           in
           case run_execute d sql_admin_dashboard params of
             Inl e \<Rightarrow> \<lparr>outcome = Raised e, session = sess, trace = t1\<rparr>
           | Inr rows \<Rightarrow>
               \<lparr>outcome = Response (jsonify_rows rows) 200, session = sess,
                trace = t1 @ [Fetchall, CursorClose, ConnClose]\<rparr>))"

text \<open>
  \<^verbatim>\<open>GET /admin/teacher/<int:teacher_id>/summary\<close>: no session check and no
  \<^verbatim>\<open>try\<close>; an empty filter is sent as \<^verbatim>\<open>None\<close>.
\<close>

definition admin_teacher_summary :: "db \<Rightarrow> request \<Rightarrow> session \<Rightarrow> result" where
  "admin_teacher_summary d req sess =
     (let teacher_id = PInt (int (path_id req));
          branch_id = args_get (args req) ''branch_id'';
          year_id = args_get (args req) ''year_id'';
          semester_id = args_get (args req) ''semester_id''
      in
      case call_stored_procedure d proc_generate_teacher_summary
             [teacher_id,
              if py_truthy branch_id then branch_id else PNone,
              if py_truthy year_id then year_id else PNone,
              if py_truthy semester_id then semester_id else PNone] of
        (Inl e, t) \<Rightarrow> \<lparr>outcome = Raised e, session = sess, trace = t\<rparr>
      | (Inr summary, t) \<Rightarrow>
          \<lparr>outcome = Response (case summary of None \<Rightarrow> PNone | Some rows \<Rightarrow> jsonify_rows rows) 200,
           session = sess, trace = t\<rparr>)"

subsection \<open>Dropdown data\<close>

text \<open>
  \<^verbatim>\<open>GET /api/dropdowns\<close>: the one handler that tests the connection; three
  statements on one cursor, the rows handed on as fetched.
\<close>

definition get_dropdown_data :: "db \<Rightarrow> session \<Rightarrow> result" where
  "get_dropdown_data d sess =
     (let (conn, t0) = get_db_connection d in
      case conn of
        None \<Rightarrow>
          \<lparr>outcome = Response (PDict [(''error'', PStr ''Database connection failed'')]) 500,
           session = sess, trace = t0\<rparr>
      | Some c \<Rightarrow>
          (let t1 = t0 @ [Cursor, Execute sql_branches []] in
           case run_execute d sql_branches [] of
             Inl e \<Rightarrow> \<lparr>outcome = Raised e, session = sess, trace = t1\<rparr>
           | Inr branches \<Rightarrow>
               (let t2 = t1 @ [Fetchall, Execute sql_years []] in
                case run_execute d sql_years [] of
                  Inl e \<Rightarrow> \<lparr>outcome = Raised e, session = sess, trace = t2\<rparr>
                | Inr years \<Rightarrow>
                    (let t3 = t2 @ [Fetchall, Execute sql_semesters []] in
                     case run_execute d sql_semesters [] of
                       Inl e \<Rightarrow> \<lparr>outcome = Raised e, session = sess, trace = t3\<rparr>
                     | Inr semesters \<Rightarrow>
                         \<lparr>outcome =
                            Response
                              (PDict [(''branches'', jsonify_rows branches),
                                      (''years'', jsonify_rows years),
                                      (''semesters'', jsonify_rows semesters)]) 200,
                          session = sess,
                          trace = t3 @ [Fetchall, CursorClose, ConnClose]\<rparr>))))"

subsection \<open>The router\<close>

definition handle :: "werkzeug \<Rightarrow> db \<Rightarrow> request \<Rightarrow> session \<Rightarrow> result" where
  "handle lib d req sess =
     (case endpoint req of
        StudentRegister \<Rightarrow> student_register lib d req sess
      | StudentLogin \<Rightarrow> student_login lib d req sess
      | StudentDashboard \<Rightarrow> student_dashboard d sess
      | StudentFeedback \<Rightarrow> student_feedback d req sess
      | Home \<Rightarrow> home sess
      | AdminLogin \<Rightarrow> admin_login lib d req sess
      | AdminDashboard \<Rightarrow> admin_dashboard d req sess
      | AdminTeacherSummary \<Rightarrow> admin_teacher_summary d req sess
      | ApiDropdowns \<Rightarrow> get_dropdown_data d sess)"

text \<open>
  The sessions a client can hold: the empty one, and the one left by any request on a
  session it can hold, whatever the database answers.
\<close>

inductive reachable :: "werkzeug \<Rightarrow> session \<Rightarrow> bool" for lib :: werkzeug where
  reachable_empty: "reachable lib Map.empty"
| reachable_step: "reachable lib s \<Longrightarrow> reachable lib (session (handle lib d req s))"

subsection \<open>Reading a trace\<close>

text \<open>The text each data-access call hands to the driver, in order.\<close>

fun sql_of :: "event \<Rightarrow> string option" where
  "sql_of (Execute q ps) = Some q"
| "sql_of (Callproc p ps) = Some p"
| "sql_of ev = None"

definition sql_texts :: "event list \<Rightarrow> string list" where
  "sql_texts t = List.map_filter sql_of t"

text \<open>The statements each handler has in its source, in order.\<close>

fun fixed_sql :: "endpoint \<Rightarrow> string list" where
  "fixed_sql StudentRegister = [sql_student_register]"
| "fixed_sql StudentLogin = [sql_student_login]"
| "fixed_sql StudentDashboard = [sql_student_dashboard]"
| "fixed_sql StudentFeedback = [proc_submit_feedback]"
| "fixed_sql Home = []"
| "fixed_sql AdminLogin = [sql_admin_login]"
| "fixed_sql AdminDashboard = [sql_admin_dashboard]"
| "fixed_sql AdminTeacherSummary = [proc_generate_teacher_summary]"
| "fixed_sql ApiDropdowns = [sql_branches, sql_years, sql_semesters]"

fun is_data_access :: "event \<Rightarrow> bool" where
  "is_data_access (Execute q ps) = True"
| "is_data_access (Callproc p ps) = True"
| "is_data_access ev = False"

definition data_access_calls :: "event list \<Rightarrow> nat" where
  "data_access_calls t = length (filter is_data_access t)"

subsection \<open>Concrete inputs\<close>

text \<open>
  A toy password library, a small database and a few requests, used to run the handlers
  on concrete inputs. The toy hash of a string \<open>s\<close> is \<open>hashed:s\<close>; like the real
  library it raises on a password that is not a string.
\<close>

definition demo_lib :: werkzeug where
  "demo_lib =
     \<lparr>generate_password_hash =
        (\<lambda>p. case p of PStr s \<Rightarrow> Inr (PStr (''hashed:'' @ s))
                       | _ \<Rightarrow> Inl (AttributeError ''object has no attribute encode'')),
      check_password_hash =
        (\<lambda>h p. case h of
                  PStr hs \<Rightarrow>
                    (case p of PStr ps \<Rightarrow> Inr (hs = ''hashed:'' @ ps)
                             | _ \<Rightarrow> Inl (AttributeError ''object has no attribute encode''))
                | _ \<Rightarrow> Inl (AttributeError ''object has no attribute split''))\<rparr>"

definition demo_student :: row where
  "demo_student =
     [(''student_id'', PInt 7), (''roll_number'', PStr ''R100''),
      (''password_hash'', PStr ''hashed:pw1'')]"

definition demo_admin :: row where
  "demo_admin =
     [(''admin_id'', PInt 1), (''username'', PStr ''root''),
      (''password_hash'', PStr ''hashed:adminpw'')]"

definition demo_db :: db where
  "demo_db =
     \<lparr>connect_error = None,
      run_execute =
        (\<lambda>q ps. if q = sql_student_login \<and> ps = [PStr ''R100''] then Inr [demo_student]
                 else if q = sql_admin_login \<and> ps = [PStr ''root''] then Inr [demo_admin]
                 else Inr []),
      run_callproc = (\<lambda>p ps. Inr []),
      run_commit = None\<rparr>"

definition failing_db :: db where
  "failing_db =
     \<lparr>connect_error = None,
      run_execute = (\<lambda>q ps. Inl (Error ''Lost connection to MySQL server'')),
      run_callproc = (\<lambda>p ps. Inl (Error ''Duplicate entry'')),
      run_commit = None\<rparr>"

definition down_db :: db where
  "down_db =
     \<lparr>connect_error = Some (2003, ''Can not connect to MySQL server''),
      run_execute = (\<lambda>q ps. Inr []),
      run_callproc = (\<lambda>p ps. Inr []),
      run_commit = None\<rparr>"

definition student_login_req :: "string \<Rightarrow> string \<Rightarrow> request" where
  "student_login_req roll pw =
     \<lparr>endpoint = StudentLogin, path_id = 0,
      json = [''roll_number'' \<mapsto> PStr roll, ''password'' \<mapsto> PStr pw],
      args = Map.empty\<rparr>"

definition admin_login_req :: "string \<Rightarrow> string \<Rightarrow> request" where
  "admin_login_req user pw =
     \<lparr>endpoint = AdminLogin, path_id = 0,
      json = [''username'' \<mapsto> PStr user, ''password'' \<mapsto> PStr pw],
      args = Map.empty\<rparr>"

definition register_req :: request where
  "register_req =
     \<lparr>endpoint = StudentRegister, path_id = 0,
      json = [''name'' \<mapsto> PStr ''Asha'', ''roll_number'' \<mapsto> PStr ''R100'',
              ''password'' \<mapsto> PStr ''pw1''],
      args = Map.empty\<rparr>"

definition feedback_req :: request where
  "feedback_req =
     \<lparr>endpoint = StudentFeedback, path_id = 3,
      json = [''rating_overall'' \<mapsto> PInt 5, ''comment'' \<mapsto> PStr ''clear''],
      args = Map.empty\<rparr>"



definition plain_req :: "endpoint \<Rightarrow> request" where
  "plain_req ep = \<lparr>endpoint = ep, path_id = 0, json = Map.empty, args = Map.empty\<rparr>"

definition student_session :: session where
  "student_session = [''student_id'' \<mapsto> PInt 7]"

subsection \<open>The parameter tuples of the two writing handlers\<close>

definition register_params :: "request \<Rightarrow> pyval \<Rightarrow> pyval list" where
  "register_params req hashed_password =
     [dict_get (json req) ''name'', dict_get (json req) ''email'', hashed_password,
      dict_get (json req) ''roll_number'', dict_get (json req) ''branch_id'',
      dict_get (json req) ''year_id'', dict_get (json req) ''semester_id'']"

definition feedback_params :: "request \<Rightarrow> session \<Rightarrow> pyval list" where
  "feedback_params req sess =
     [dict_get sess ''student_id'', PInt (int (path_id req)),
      dict_get (json req) ''rating_knowledge'', dict_get (json req) ''rating_communication'',
      dict_get (json req) ''rating_punctuality'', dict_get (json req) ''rating_overall'',
      dict_get (json req) ''comment'']"

subsection \<open>When a handler reaches the database\<close>

text \<open>
  A request reaches the database when the connection is established and the handler
  gets as far as its data-access step: the home page never does, the registration only
  once the password is hashed, the protected endpoints only with a truthy
  \<open>student_id\<close> in the session. \<open>dropdown_statements\<close> lists the statements of
  \<^verbatim>\<open>GET /api/dropdowns\<close> up to the first that raises.
\<close>

definition reaches_database :: "werkzeug \<Rightarrow> db \<Rightarrow> request \<Rightarrow> session \<Rightarrow> bool" where
  "reaches_database lib d req sess =
     (connect_error d = None \<and>
      (case endpoint req of
         Home \<Rightarrow> False
       | StudentRegister \<Rightarrow>
           (case generate_password_hash lib (dict_get (json req) ''password'') of
              Inl e \<Rightarrow> False | Inr hp \<Rightarrow> True)
       | StudentDashboard \<Rightarrow> py_truthy (dict_get sess ''student_id'')
       | StudentFeedback \<Rightarrow> py_truthy (dict_get sess ''student_id'')
       | _ \<Rightarrow> True))"

definition dropdown_statements :: "db \<Rightarrow> string list" where
  "dropdown_statements d =
     (case connect_error d of
        Some err \<Rightarrow> []
      | None \<Rightarrow>
          (case run_execute d sql_branches [] of
             Inl e \<Rightarrow> [sql_branches]
           | Inr branches \<Rightarrow>
               (case run_execute d sql_years [] of
                  Inl e \<Rightarrow> [sql_branches, sql_years]
                | Inr years \<Rightarrow> [sql_branches, sql_years, sql_semesters])))"

section \<open>Properties\<close>

subsection \<open>What each handler does to the session\<close>

lemma session_student_login:
  "session (student_login lib d req s) = s \<or>
   (\<exists>v. session (student_login lib d req s) = s(''student_id'' \<mapsto> v))"
  by (auto simp: student_login_def invalid_credentials_def Let_def
           split: option.splits sum.splits prod.splits)

lemma session_admin_login:
  "session (admin_login lib d req s) = s \<or>
   (\<exists>v. session (admin_login lib d req s) = s(''admin_id'' \<mapsto> v))"
  by (auto simp: admin_login_def invalid_credentials_def Let_def
           split: option.splits sum.splits prod.splits)

lemma session_student_register: "session (student_register lib d req s) = s"
  by (simp add: student_register_def Let_def split: option.splits sum.splits prod.splits)

lemma session_student_dashboard: "session (student_dashboard d s) = s"
  by (simp add: student_dashboard_def not_logged_in_def Let_def
           split: option.splits sum.splits prod.splits)

lemma session_student_feedback: "session (student_feedback d req s) = s"
  by (simp add: student_feedback_def not_logged_in_def Let_def
           split: option.splits sum.splits prod.splits)

lemma session_admin_dashboard: "session (admin_dashboard d req s) = s"
  by (simp add: admin_dashboard_def Let_def split: option.splits sum.splits prod.splits)

lemma session_admin_teacher_summary: "session (admin_teacher_summary d req s) = s"
  by (simp add: admin_teacher_summary_def Let_def split: option.splits sum.splits prod.splits)

lemma session_get_dropdown_data: "session (get_dropdown_data d s) = s"
  by (simp add: get_dropdown_data_def Let_def split: option.splits sum.splits prod.splits)

lemma session_home: "session (home s) = s"
  by (simp add: home_def)

lemma session_handle_cases:
  "session (handle lib d req s) = s \<or>
   (\<exists>v. endpoint req = StudentLogin \<and> session (handle lib d req s) = s(''student_id'' \<mapsto> v)) \<or>
   (\<exists>v. endpoint req = AdminLogin \<and> session (handle lib d req s) = s(''admin_id'' \<mapsto> v))"
  using session_student_login[of lib d req s] session_admin_login[of lib d req s]
  by (cases "endpoint req")
     (simp_all add: handle_def session_student_register session_student_dashboard
        session_student_feedback session_admin_dashboard session_admin_teacher_summary
        session_get_dropdown_data session_home)

subsection \<open>Protected endpoints\<close>

text \<open>
  Claim C2. A request to \<^verbatim>\<open>GET /student/dashboard\<close> or to
  \<^verbatim>\<open>POST /student/feedback/<id>\<close> on a session without \<open>student_id\<close> is answered
  with the payload "Not logged in" and status 401; the trace is empty, so the driver is
  not called at all (no connection, no statement, no commit), and the session is left
  as it was.
\<close>

theorem protected_endpoint_without_login:
  "sess ''student_id'' = None \<Longrightarrow>
   endpoint req = StudentDashboard \<or> endpoint req = StudentFeedback \<Longrightarrow>
   handle lib d req sess =
     \<lparr>outcome = Response (status_message ''error'' ''Not logged in'') 401,
      session = sess, trace = []\<rparr>"
  by (auto simp: handle_def student_dashboard_def student_feedback_def not_logged_in_def
        dict_get_def)

theorem protected_endpoint_without_login_witness:
  "Map.empty ''student_id'' = (None :: pyval option) \<and>
   (endpoint feedback_req = StudentDashboard \<or> endpoint feedback_req = StudentFeedback) \<and>
   handle demo_lib demo_db feedback_req Map.empty =
     \<lparr>outcome = Response (status_message ''error'' ''Not logged in'') 401,
      session = Map.empty, trace = []\<rparr>"
  using protected_endpoint_without_login [of Map.empty feedback_req demo_lib demo_db]
  by (simp add: feedback_req_def)

subsection \<open>Login\<close>

lemma get_db_connection_ok: "connect_error d = None \<Longrightarrow> get_db_connection d = (Some Conn, [Connect])"
  by (simp add: get_db_connection_def)

lemma get_db_connection_failed:
  "connect_error d = Some err \<Longrightarrow> \<exists>m. get_db_connection d = (None, [ConnectFailed m])"
  by (cases err) (simp add: get_db_connection_def)

lemma student_login_success:
  assumes "connect_error d = None"
    and "run_execute d sql_student_login [dict_get (json req) ''roll_number''] = Inr (r # rest)"
    and "map_of r ''password_hash'' = Some h"
    and "check_password_hash lib h (dict_get (json req) ''password'') = Inr True"
    and "map_of r ''student_id'' = Some sid"
  shows "student_login lib d req sess =
     \<lparr>outcome = Response (PDict [(''status'', PStr ''success''),
                                 (''message'', PStr ''Login successful''),
                                 (''student_id'', sid)]) 200,
      session = sess(''student_id'' \<mapsto> sid),
      trace = [Connect, Cursor, Execute sql_student_login [dict_get (json req) ''roll_number''],
               Fetchone, CursorClose, ConnClose]\<rparr>"
proof -
  from assms(3) have "r \<noteq> []" by auto
  with assms show ?thesis
    by (simp add: student_login_def get_db_connection_ok fetchone_def getitem_def Let_def)
qed

lemma admin_login_success:
  assumes "connect_error d = None"
    and "run_execute d sql_admin_login [dict_get (json req) ''username''] = Inr (r # rest)"
    and "map_of r ''password_hash'' = Some h"
    and "check_password_hash lib h (dict_get (json req) ''password'') = Inr True"
    and "map_of r ''admin_id'' = Some aid"
  shows "admin_login lib d req sess =
     \<lparr>outcome = Response (status_message ''success'' ''Login successful'') 200,
      session = sess(''admin_id'' \<mapsto> aid),
      trace = [Connect, Cursor, Execute sql_admin_login [dict_get (json req) ''username''],
               Fetchone, CursorClose, ConnClose]\<rparr>"
proof -
  from assms(3) have "r \<noteq> []" by auto
  with assms show ?thesis
    by (simp add: admin_login_def get_db_connection_ok fetchone_def getitem_def Let_def)
qed

text \<open>
  Claim C3. A login request (student or admin) for which the connection is established,
  the \<^verbatim>\<open>SELECT\<close> on the supplied identifier returns a stored record first, that
  record carries a password hash and an id column, and the supplied password verifies
  against the hash: the handler stores the id of that very record in the session under
  \<open>student_id\<close> (resp. \<open>admin_id\<close>) and answers with the success payload and
  status 200.
\<close>

theorem login_success_sets_session:
  assumes "connect_error d = None"
    and "map_of r ''password_hash'' = Some h"
    and "check_password_hash lib h (dict_get (json req) ''password'') = Inr True"
  shows
   "(endpoint req = StudentLogin \<longrightarrow>
     run_execute d sql_student_login [dict_get (json req) ''roll_number''] = Inr (r # rest) \<longrightarrow>
     map_of r ''student_id'' = Some ident \<longrightarrow>
       session (handle lib d req sess) = sess(''student_id'' \<mapsto> ident) \<and>
       outcome (handle lib d req sess) =
         Response (PDict [(''status'', PStr ''success''),
                          (''message'', PStr ''Login successful''),
                          (''student_id'', ident)]) 200) \<and>
    (endpoint req = AdminLogin \<longrightarrow>
     run_execute d sql_admin_login [dict_get (json req) ''username''] = Inr (r # rest) \<longrightarrow>
     map_of r ''admin_id'' = Some ident \<longrightarrow>
       session (handle lib d req sess) = sess(''admin_id'' \<mapsto> ident) \<and>
       outcome (handle lib d req sess) =
         Response (status_message ''success'' ''Login successful'') 200)"
  using assms by (simp add: handle_def student_login_success admin_login_success)

lemma demo_exec_student:
  "run_execute demo_db sql_student_login [PStr ''R100''] = Inr [demo_student]"
  by (simp add: demo_db_def)

lemma demo_exec_admin:
  "run_execute demo_db sql_admin_login [PStr ''root''] = Inr [demo_admin]"
  by (simp add: demo_db_def sql_admin_login_def sql_student_login_def)

theorem login_success_sets_session_witness:
  "session (handle demo_lib demo_db (student_login_req ''R100'' ''pw1'') Map.empty)
     = [''student_id'' \<mapsto> PInt 7] \<and>
   outcome (handle demo_lib demo_db (student_login_req ''R100'' ''pw1'') Map.empty)
     = Response (PDict [(''status'', PStr ''success''),
                        (''message'', PStr ''Login successful''),
                        (''student_id'', PInt 7)]) 200 \<and>
   session (handle demo_lib demo_db (admin_login_req ''root'' ''adminpw'') Map.empty)
     = [''admin_id'' \<mapsto> PInt 1] \<and>
   outcome (handle demo_lib demo_db (admin_login_req ''root'' ''adminpw'') Map.empty)
     = Response (status_message ''success'' ''Login successful'') 200"
proof -
  have up: "connect_error demo_db = None"
    by (simp add: demo_db_def)
  have sh: "map_of demo_student ''password_hash'' = Some (PStr ''hashed:pw1'')"
    and si: "map_of demo_student ''student_id'' = Some (PInt 7)"
    by (simp_all add: demo_student_def)
  have ah: "map_of demo_admin ''password_hash'' = Some (PStr ''hashed:adminpw'')"
    and ai: "map_of demo_admin ''admin_id'' = Some (PInt 1)"
    by (simp_all add: demo_admin_def)
  have sc: "check_password_hash demo_lib (PStr ''hashed:pw1'')
              (dict_get (json (student_login_req ''R100'' ''pw1'')) ''password'') = Inr True"
    by (simp add: demo_lib_def student_login_req_def dict_get_def)
  have ac: "check_password_hash demo_lib (PStr ''hashed:adminpw'')
              (dict_get (json (admin_login_req ''root'' ''adminpw'')) ''password'') = Inr True"
    by (simp add: demo_lib_def admin_login_req_def dict_get_def)
  have se: "run_execute demo_db sql_student_login
              [dict_get (json (student_login_req ''R100'' ''pw1'')) ''roll_number'']
            = Inr (demo_student # [])"
    by (simp add: demo_exec_student student_login_req_def dict_get_def)
  have ae: "run_execute demo_db sql_admin_login
              [dict_get (json (admin_login_req ''root'' ''adminpw'')) ''username'']
            = Inr (demo_admin # [])"
    by (simp add: demo_exec_admin admin_login_req_def dict_get_def)
  have sp: "endpoint (student_login_req ''R100'' ''pw1'') = StudentLogin"
    by (simp add: student_login_req_def)
  have ap: "endpoint (admin_login_req ''root'' ''adminpw'') = AdminLogin"
    by (simp add: admin_login_req_def)
  from login_success_sets_session [OF up sh sc, of "[]" "PInt 7" Map.empty] sp se si
  have student: "session (handle demo_lib demo_db (student_login_req ''R100'' ''pw1'') Map.empty)
       = [''student_id'' \<mapsto> PInt 7] \<and>
     outcome (handle demo_lib demo_db (student_login_req ''R100'' ''pw1'') Map.empty)
       = Response (PDict [(''status'', PStr ''success''),
                          (''message'', PStr ''Login successful''),
                          (''student_id'', PInt 7)]) 200"
    by blast
  from login_success_sets_session [OF up ah ac, of "[]" "PInt 1" Map.empty] ap ae ai
  have admin: "session (handle demo_lib demo_db (admin_login_req ''root'' ''adminpw'') Map.empty)
       = [''admin_id'' \<mapsto> PInt 1] \<and>
     outcome (handle demo_lib demo_db (admin_login_req ''root'' ''adminpw'') Map.empty)
       = Response (status_message ''success'' ''Login successful'') 200"
    by blast
  from student admin show ?thesis by blast
qed









subsection \<open>The session over a sequence of requests\<close>

lemma dom_session_handle:
  "dom (session (handle lib d req s)) \<subseteq> dom s \<union> {''student_id'', ''admin_id''}"
  using session_handle_cases [of lib d req s]
  by (elim disjE exE conjE) auto

lemma reachable_dom: "reachable lib s \<Longrightarrow> dom s \<subseteq> {''student_id'', ''admin_id''}"
proof (induction rule: reachable.induct)
  case reachable_empty
  show ?case by simp
next
  case (reachable_step s d req)
  from dom_session_handle [of lib d req s] reachable_step.IH show ?case
    by blast
qed

lemma handle_keeps_admin_id:
  "endpoint req \<noteq> AdminLogin \<Longrightarrow> session (handle lib d req s) ''admin_id'' = s ''admin_id''"
  using session_handle_cases [of lib d req s] by auto

lemma handle_keeps_student_id:
  "endpoint req \<noteq> StudentLogin \<Longrightarrow> session (handle lib d req s) ''student_id'' = s ''student_id''"
  using session_handle_cases [of lib d req s] by auto

text \<open>
  Claim C5, as amended. Over every sequence of requests that starts from the empty
  session, the session holds no key other than \<open>student_id\<close> and \<open>admin_id\<close>; only
  the admin login writes \<open>admin_id\<close> and only the student login writes \<open>student_id\<close>,
  and no handler removes either key: a request leaves the session as it was, or is a
  student login that sets \<open>student_id\<close>, or an admin login that sets \<open>admin_id\<close>.
  So a session may hold a student identity and an admin identity at once.
\<close>

theorem session_keys_invariant:
  "reachable lib s \<Longrightarrow>
   dom s \<subseteq> {''student_id'', ''admin_id''} \<and>
   dom s \<subseteq> dom (session (handle lib d req s)) \<and>
   (session (handle lib d req s) = s \<or>
    (\<exists>v. endpoint req = StudentLogin \<and>
         session (handle lib d req s) = s(''student_id'' \<mapsto> v)) \<or>
    (\<exists>v. endpoint req = AdminLogin \<and>
         session (handle lib d req s) = s(''admin_id'' \<mapsto> v))) \<and>
   (endpoint req \<noteq> AdminLogin \<longrightarrow>
      session (handle lib d req s) ''admin_id'' = s ''admin_id'') \<and>
   (endpoint req \<noteq> StudentLogin \<longrightarrow>
      session (handle lib d req s) ''student_id'' = s ''student_id'')"
proof -
  assume r: "reachable lib s"
  have keep: "dom s \<subseteq> dom (session (handle lib d req s))"
    using session_handle_cases [of lib d req s] by (elim disjE exE conjE) auto
  from r keep session_handle_cases [of lib d req s] show ?thesis
    by (simp add: reachable_dom handle_keeps_admin_id handle_keeps_student_id)
qed

lemma demo_student_login:
  "session (handle demo_lib demo_db (student_login_req ''R100'' ''pw1'') sess)
     = sess(''student_id'' \<mapsto> PInt 7)"
proof -
  have "student_login demo_lib demo_db (student_login_req ''R100'' ''pw1'') sess =
     \<lparr>outcome = Response (PDict [(''status'', PStr ''success''),
                                 (''message'', PStr ''Login successful''),
                                 (''student_id'', PInt 7)]) 200,
      session = sess(''student_id'' \<mapsto> PInt 7),
      trace = [Connect, Cursor,
               Execute sql_student_login
                 [dict_get (json (student_login_req ''R100'' ''pw1'')) ''roll_number''],
               Fetchone, CursorClose, ConnClose]\<rparr>"
  proof (rule student_login_success)
    show "connect_error demo_db = None"
      by (simp add: demo_db_def)
    show "run_execute demo_db sql_student_login
            [dict_get (json (student_login_req ''R100'' ''pw1'')) ''roll_number'']
          = Inr (demo_student # [])"
      by (simp add: demo_exec_student student_login_req_def dict_get_def)
    show "map_of demo_student ''password_hash'' = Some (PStr ''hashed:pw1'')"
      by (simp add: demo_student_def)
    show "check_password_hash demo_lib (PStr ''hashed:pw1'')
            (dict_get (json (student_login_req ''R100'' ''pw1'')) ''password'') = Inr True"
      by (simp add: demo_lib_def student_login_req_def dict_get_def)
    show "map_of demo_student ''student_id'' = Some (PInt 7)"
      by (simp add: demo_student_def)
  qed
  then show ?thesis
    by (simp add: handle_def student_login_req_def)
qed

lemma demo_admin_login:
  "session (handle demo_lib demo_db (admin_login_req ''root'' ''adminpw'') sess)
     = sess(''admin_id'' \<mapsto> PInt 1)"
proof -
  have "admin_login demo_lib demo_db (admin_login_req ''root'' ''adminpw'') sess =
     \<lparr>outcome = Response (status_message ''success'' ''Login successful'') 200,
      session = sess(''admin_id'' \<mapsto> PInt 1),
      trace = [Connect, Cursor,
               Execute sql_admin_login
                 [dict_get (json (admin_login_req ''root'' ''adminpw'')) ''username''],
               Fetchone, CursorClose, ConnClose]\<rparr>"
  proof (rule admin_login_success)
    show "connect_error demo_db = None"
      by (simp add: demo_db_def)
    show "run_execute demo_db sql_admin_login
            [dict_get (json (admin_login_req ''root'' ''adminpw'')) ''username'']
          = Inr (demo_admin # [])"
      by (simp add: demo_exec_admin admin_login_req_def dict_get_def)
    show "map_of demo_admin ''password_hash'' = Some (PStr ''hashed:adminpw'')"
      by (simp add: demo_admin_def)
    show "check_password_hash demo_lib (PStr ''hashed:adminpw'')
            (dict_get (json (admin_login_req ''root'' ''adminpw'')) ''password'') = Inr True"
      by (simp add: demo_lib_def admin_login_req_def dict_get_def)
    show "map_of demo_admin ''admin_id'' = Some (PInt 1)"
      by (simp add: demo_admin_def)
  qed
  then show ?thesis
    by (simp add: handle_def admin_login_req_def)
qed

text \<open>
  The claim as stated (at most one of the two identities) fails: a student login followed
  by an admin login on the same session leaves both ids in it.
\<close>

theorem session_holds_both_identities:
  "reachable demo_lib
     (session (handle demo_lib demo_db (admin_login_req ''root'' ''adminpw'')
        (session (handle demo_lib demo_db (student_login_req ''R100'' ''pw1'') Map.empty)))) \<and>
   session (handle demo_lib demo_db (admin_login_req ''root'' ''adminpw'')
        (session (handle demo_lib demo_db (student_login_req ''R100'' ''pw1'') Map.empty)))
     ''student_id'' = Some (PInt 7) \<and>
   session (handle demo_lib demo_db (admin_login_req ''root'' ''adminpw'')
        (session (handle demo_lib demo_db (student_login_req ''R100'' ''pw1'') Map.empty)))
     ''admin_id'' = Some (PInt 1)"
proof -
  have "reachable demo_lib
     (session (handle demo_lib demo_db (admin_login_req ''root'' ''adminpw'')
        (session (handle demo_lib demo_db (student_login_req ''R100'' ''pw1'') Map.empty))))"
    by (intro reachable_step reachable_empty)
  then show ?thesis
    by (simp add: demo_student_login demo_admin_login)
qed

theorem session_keys_invariant_witness:
  "reachable demo_lib student_session \<and>
   dom student_session \<subseteq> {''student_id'', ''admin_id''} \<and>
   dom student_session \<subseteq>
     dom (session (handle demo_lib demo_db (admin_login_req ''root'' ''guess'') student_session)) \<and>
   session (handle demo_lib demo_db (admin_login_req ''root'' ''adminpw'') student_session)
     ''student_id'' = student_session ''student_id'' \<and>
   session (handle demo_lib demo_db (student_login_req ''R100'' ''pw1'') student_session)
     ''admin_id'' = student_session ''admin_id''"
proof -
  have "reachable demo_lib
          (session (handle demo_lib demo_db (student_login_req ''R100'' ''pw1'') Map.empty))"
    by (intro reachable_step reachable_empty)
  then have r: "reachable demo_lib student_session"
    by (simp add: demo_student_login student_session_def)
  from session_keys_invariant [OF r, where d = demo_db and req = "admin_login_req ''root'' ''adminpw''"]
       session_keys_invariant [OF r, where d = demo_db and req = "student_login_req ''R100'' ''pw1''"]
       session_keys_invariant [OF r, where d = demo_db and req = "admin_login_req ''root'' ''guess''"]
       r
  show ?thesis
    by (simp add: admin_login_req_def student_login_req_def)
qed

subsection \<open>The stored-procedure helper\<close>

lemma last_result_set:
  "foldl (\<lambda>result res. Some res) None results =
     (if results = [] then None else Some (last results))"
  by (induction results rule: rev_induct) simp_all

lemma call_stored_procedure_connected:
  assumes "connect_error d = None"
  shows "call_stored_procedure d p ps =
     (case run_callproc d p ps of
        Inl e \<Rightarrow> (Inl e, [Connect, Cursor, Callproc p ps, CursorClose, ConnClose])
      | Inr results \<Rightarrow>
          (case run_commit d of
             Some e \<Rightarrow> (Inl e, [Connect, Cursor, Callproc p ps, Commit, CursorClose, ConnClose])
           | None \<Rightarrow>
               (Inr (if results = [] then None else Some (last results)),
                [Connect, Cursor, Callproc p ps, Commit, StoredResults]
                  @ replicate (length results) Fetchall @ [CursorClose, ConnClose])))"
  using assms
  by (simp add: call_stored_procedure_def get_db_connection_ok last_result_set map_replicate_const
           split: sum.splits option.splits)

lemma call_stored_procedure_down:
  assumes "connect_error d = Some err"
  shows "fst (call_stored_procedure d p ps) = Inl none_has_no_cursor"
    and "\<exists>m. snd (call_stored_procedure d p ps) = [ConnectFailed m]"
  using get_db_connection_failed [OF assms]
  by (auto simp: call_stored_procedure_def)

text \<open>
  Claim C7, as amended. An invocation of \<^verbatim>\<open>call_stored_procedure\<close> on which the
  connection is established opens that one connection and one cursor, runs exactly one
  procedure call, commits exactly when that call did not raise, reads the result sets
  only after a commit that did not raise, and closes the cursor and then the connection
  as its last two driver calls on every path: after a result, after a raising call and
  after a raising commit. It returns the rows of the last result set (or \<^verbatim>\<open>None\<close>
  when there is none) or re-raises the exception of the call or of the commit.
\<close>

theorem call_stored_procedure_releases:
  assumes "connect_error d = None"
  shows "\<exists>mid.
      snd (call_stored_procedure d p ps) =
        [Connect, Cursor, Callproc p ps] @ mid @ [CursorClose, ConnClose] \<and>
      set mid \<subseteq> {Commit, StoredResults, Fetchall} \<and>
      length (filter (\<lambda>ev. ev = Commit) mid) \<le> 1 \<and>
      (Commit \<in> set mid \<longleftrightarrow> (\<exists>results. run_callproc d p ps = Inr results)) \<and>
      fst (call_stored_procedure d p ps) =
        (case run_callproc d p ps of
           Inl e \<Rightarrow> Inl e
         | Inr results \<Rightarrow>
             (case run_commit d of
                Some e \<Rightarrow> Inl e
              | None \<Rightarrow> Inr (if results = [] then None else Some (last results))))"
proof (cases "run_callproc d p ps")
  case (Inl e)
  with assms show ?thesis
    by (intro exI [of _ "[]"]) (simp add: call_stored_procedure_connected)
next
  case (Inr results)
  show ?thesis
  proof (cases "run_commit d")
    case (Some e)
    with Inr assms show ?thesis
      by (intro exI [of _ "[Commit]"]) (simp add: call_stored_procedure_connected)
  next
    case None
    with Inr assms show ?thesis
      by (intro exI [of _ "[Commit, StoredResults] @ replicate (length results) Fetchall"])
         (auto simp add: call_stored_procedure_connected)
  qed
qed

text \<open>
  The claim as stated has the function commit also when the procedure call raises. It
  does not: the commit follows the call inside the \<^verbatim>\<open>try\<close>, so a raising call goes
  straight to the \<^verbatim>\<open>finally\<close>.
\<close>

theorem call_stored_procedure_skips_commit:
  "fst (call_stored_procedure failing_db proc_submit_feedback []) = Inl (Error ''Duplicate entry'') \<and>
   snd (call_stored_procedure failing_db proc_submit_feedback []) =
     [Connect, Cursor, Callproc proc_submit_feedback [], CursorClose, ConnClose] \<and>
   Commit \<notin> set (snd (call_stored_procedure failing_db proc_submit_feedback []))"
  by (simp add: call_stored_procedure_connected failing_db_def)

theorem call_stored_procedure_releases_witness:
  "connect_error demo_db = None \<and>
   (\<exists>mid.
      snd (call_stored_procedure demo_db proc_submit_feedback []) =
        [Connect, Cursor, Callproc proc_submit_feedback []] @ mid @ [CursorClose, ConnClose] \<and>
      set mid \<subseteq> {Commit, StoredResults, Fetchall} \<and>
      length (filter (\<lambda>ev. ev = Commit) mid) \<le> 1 \<and>
      Commit \<in> set mid) \<and>
   fst (call_stored_procedure demo_db proc_submit_feedback []) = Inr None"
proof -
  have up: "connect_error demo_db = None"
    by (simp add: demo_db_def)
  have ok: "run_callproc demo_db proc_submit_feedback [] = Inr []"
    and cm: "run_commit demo_db = None"
    by (simp_all add: demo_db_def)
  from call_stored_procedure_releases [OF up, of proc_submit_feedback "[]"] up ok cm
  show ?thesis by auto
qed

subsection \<open>Exceptions of the data-access step\<close>

lemma student_register_connected:
  assumes "generate_password_hash lib (dict_get (json req) ''password'') = Inr hp"
    and "connect_error d = None"
  shows "student_register lib d req sess =
     (case run_execute d sql_student_register (register_params req hp) of
        Inl e \<Rightarrow>
          \<lparr>outcome = Response (status_message ''error'' (str_exn e)) 200, session = sess,
           trace = [Connect, Cursor, Execute sql_student_register (register_params req hp),
                    CursorClose, ConnClose]\<rparr>
      | Inr rows \<Rightarrow>
          (case run_commit d of
             Some e \<Rightarrow>
               \<lparr>outcome = Response (status_message ''error'' (str_exn e)) 200, session = sess,
                trace = [Connect, Cursor, Execute sql_student_register (register_params req hp),
                         Commit, CursorClose, ConnClose]\<rparr>
           | None \<Rightarrow>
               \<lparr>outcome = Response (status_message ''success'' ''Student registered successfully'') 200,
                session = sess,
                trace = [Connect, Cursor, Execute sql_student_register (register_params req hp),
                         Commit, CursorClose, ConnClose]\<rparr>))"
  using assms
  by (simp add: student_register_def get_db_connection_ok register_params_def Let_def
           split: sum.splits option.splits)

lemma student_feedback_logged_in:
  assumes "py_truthy (dict_get sess ''student_id'')"
  shows "student_feedback d req sess =
     (case call_stored_procedure d proc_submit_feedback (feedback_params req sess) of
        (Inr res, t) \<Rightarrow>
          \<lparr>outcome = Response (status_message ''success'' ''Feedback submitted successfully'') 200,
           session = sess, trace = t\<rparr>
      | (Inl e, t) \<Rightarrow>
          \<lparr>outcome = Response (status_message ''error'' (str_exn e)) 200,
           session = sess, trace = t\<rparr>)"
  using assms
  by (simp add: student_feedback_def feedback_params_def Let_def)

text \<open>
  Claim C6, as amended. In the two handlers that wrap their data-access step in
  \<^verbatim>\<open>try ... except Exception\<close>, an exception of that step comes back as the payload
  \<open>{status: error, message: str(e)}\<close> with status 200 instead of leaving the handler:
  in \<^verbatim>\<open>POST /student/register\<close>, on an established connection, when
  \<^verbatim>\<open>execute\<close> or \<^verbatim>\<open>commit\<close> raises; in \<^verbatim>\<open>POST /student/feedback/<id>\<close>, for a
  logged-in session, whatever \<^verbatim>\<open>call_stored_procedure\<close> raises.
\<close>

theorem write_handlers_report_exception:
  "(endpoint req = StudentRegister \<longrightarrow>
      generate_password_hash lib (dict_get (json req) ''password'') = Inr hp \<longrightarrow>
      connect_error d = None \<longrightarrow>
      run_execute d sql_student_register (register_params req hp) = Inl e \<or>
      (\<exists>rows. run_execute d sql_student_register (register_params req hp) = Inr rows) \<and>
        run_commit d = Some e \<longrightarrow>
      outcome (handle lib d req sess) = Response (status_message ''error'' (str_exn e)) 200) \<and>
   (endpoint req = StudentFeedback \<longrightarrow>
      py_truthy (dict_get sess ''student_id'') \<longrightarrow>
      fst (call_stored_procedure d proc_submit_feedback (feedback_params req sess)) = Inl e \<longrightarrow>
      outcome (handle lib d req sess) = Response (status_message ''error'' (str_exn e)) 200)"
  by (auto simp: handle_def student_register_connected student_feedback_logged_in
           split: prod.splits sum.splits)

text \<open>
  The claim as stated speaks of every handler. The student login has no \<^verbatim>\<open>try\<close>: an
  exception of its \<^verbatim>\<open>execute\<close> leaves the handler.
\<close>

theorem login_propagates_exception:
  "outcome (handle demo_lib failing_db (student_login_req ''R100'' ''pw1'') Map.empty) =
     Raised (Error ''Lost connection to MySQL server'')"
  by (simp add: handle_def student_login_def student_login_req_def get_db_connection_ok
        failing_db_def Let_def)

theorem write_handlers_report_exception_witness:
  "outcome (handle demo_lib failing_db register_req Map.empty) =
     Response (status_message ''error'' ''Lost connection to MySQL server'') 200 \<and>
   outcome (handle demo_lib failing_db feedback_req student_session) =
     Response (status_message ''error'' ''Duplicate entry'') 200"
proof -
  have ep: "endpoint register_req = StudentRegister"
    and hp: "generate_password_hash demo_lib (dict_get (json register_req) ''password'')
               = Inr (PStr ''hashed:pw1'')"
    by (simp_all add: register_req_def demo_lib_def dict_get_def)
  have up: "connect_error failing_db = None"
    by (simp add: failing_db_def)
  have ex: "run_execute failing_db sql_student_register
              (register_params register_req (PStr ''hashed:pw1''))
            = Inl (Error ''Lost connection to MySQL server'')"
    by (simp add: failing_db_def)
  have fp: "endpoint feedback_req = StudentFeedback"
    by (simp add: feedback_req_def)
  have li: "py_truthy (dict_get student_session ''student_id'')"
    by (simp add: student_session_def dict_get_def)
  have cp: "fst (call_stored_procedure failing_db proc_submit_feedback
                   (feedback_params feedback_req student_session))
            = Inl (Error ''Duplicate entry'')"
    by (simp add: call_stored_procedure_connected up) (simp add: failing_db_def)
  from write_handlers_report_exception
         [of register_req demo_lib "PStr ''hashed:pw1''" failing_db
             "Error ''Lost connection to MySQL server''" Map.empty]
       ep hp up ex
  have a: "outcome (handle demo_lib failing_db register_req Map.empty) =
     Response (status_message ''error'' ''Lost connection to MySQL server'') 200"
    by simp
  from write_handlers_report_exception
         [of feedback_req demo_lib "PStr ''hashed:pw1''" failing_db
             "Error ''Duplicate entry''" student_session]
       fp li cp
  have b: "outcome (handle demo_lib failing_db feedback_req student_session) =
     Response (status_message ''error'' ''Duplicate entry'') 200"
    by simp
  from a b show ?thesis by simp
qed

subsection \<open>The statements a handler issues\<close>

lemma sql_texts_simps [simp]:
  "sql_texts [] = []"
  "sql_texts (Execute q ps # t) = q # sql_texts t"
  "sql_texts (Callproc p ps # t) = p # sql_texts t"
  "sql_texts (Connect # t) = sql_texts t"
  "sql_texts (ConnectFailed m # t) = sql_texts t"
  "sql_texts (Cursor # t) = sql_texts t"
  "sql_texts (Commit # t) = sql_texts t"
  "sql_texts (StoredResults # t) = sql_texts t"
  "sql_texts (Fetchone # t) = sql_texts t"
  "sql_texts (Fetchall # t) = sql_texts t"
  "sql_texts (CursorClose # t) = sql_texts t"
  "sql_texts (ConnClose # t) = sql_texts t"
  by (simp_all add: sql_texts_def)

lemma sql_texts_append: "sql_texts (s @ t) = sql_texts s @ sql_texts t"
  by (simp add: sql_texts_def List.map_filter_def)

lemma sql_texts_fetchalls [simp]: "sql_texts (replicate n Fetchall) = []"
  by (induction n) simp_all

lemma data_access_calls_sql_texts: "data_access_calls t = length (sql_texts t)"
proof (induction t)
  case Nil
  show ?case by (simp add: data_access_calls_def)
next
  case (Cons ev t)
  then show ?case by (cases ev) (simp_all add: data_access_calls_def)
qed

lemma sql_texts_call_stored_procedure:
  "sql_texts (snd (call_stored_procedure d p ps)) = (if connect_error d = None then [p] else [])"
proof (cases "connect_error d")
  case None
  then show ?thesis
    by (simp add: call_stored_procedure_connected sql_texts_append
             split: sum.splits option.splits)
next
  case (Some err)
  from call_stored_procedure_down(2) [OF Some, of p ps] Some show ?thesis
    by auto
qed

lemma sql_texts_student_register:
  "sql_texts (trace (student_register lib d req sess)) =
     (if reaches_database lib d (req\<lparr>endpoint := StudentRegister\<rparr>) sess
      then [sql_student_register] else [])"
  by (cases "connect_error d")
     (auto simp: student_register_def get_db_connection_def reaches_database_def Let_def
           split: sum.splits option.splits prod.splits)

lemma sql_texts_student_login:
  "sql_texts (trace (student_login lib d req sess)) =
     (if connect_error d = None then [sql_student_login] else [])"
  by (cases "connect_error d")
     (auto simp: student_login_def get_db_connection_def invalid_credentials_def Let_def
           split: sum.splits option.splits prod.splits)

lemma sql_texts_admin_login:
  "sql_texts (trace (admin_login lib d req sess)) =
     (if connect_error d = None then [sql_admin_login] else [])"
  by (cases "connect_error d")
     (auto simp: admin_login_def get_db_connection_def invalid_credentials_def Let_def
           split: sum.splits option.splits prod.splits)

lemma sql_texts_student_dashboard:
  "sql_texts (trace (student_dashboard d sess)) =
     (if py_truthy (dict_get sess ''student_id'') \<and> connect_error d = None
      then [sql_student_dashboard] else [])"
  by (cases "connect_error d")
     (auto simp: student_dashboard_def get_db_connection_def not_logged_in_def Let_def
           split: sum.splits option.splits prod.splits)

lemma sql_texts_student_feedback:
  "sql_texts (trace (student_feedback d req sess)) =
     (if py_truthy (dict_get sess ''student_id'') \<and> connect_error d = None
      then [proc_submit_feedback] else [])"
proof (cases "py_truthy (dict_get sess ''student_id'')")
  case True
  obtain res t where c: "call_stored_procedure d proc_submit_feedback (feedback_params req sess) = (res, t)"
    by (cases "call_stored_procedure d proc_submit_feedback (feedback_params req sess)")
  from sql_texts_call_stored_procedure [of d proc_submit_feedback "feedback_params req sess"] c
  have "sql_texts t = (if connect_error d = None then [proc_submit_feedback] else [])"
    by simp
  with True c show ?thesis
    by (cases res) (simp_all add: student_feedback_logged_in)
next
  case False
  then show ?thesis
    by (simp add: student_feedback_def not_logged_in_def)
qed

lemma sql_texts_admin_dashboard:
  "sql_texts (trace (admin_dashboard d req sess)) =
     (if connect_error d = None then [sql_admin_dashboard] else [])"
  by (cases "connect_error d")
     (auto simp: admin_dashboard_def get_db_connection_def Let_def
           split: sum.splits option.splits prod.splits)

lemma sql_texts_admin_teacher_summary:
  "sql_texts (trace (admin_teacher_summary d req sess)) =
     (if connect_error d = None then [proc_generate_teacher_summary] else [])"
proof -
  let ?ps = "[PInt (int (path_id req)),
              if py_truthy (args_get (args req) ''branch_id'') then args_get (args req) ''branch_id'' else PNone,
              if py_truthy (args_get (args req) ''year_id'') then args_get (args req) ''year_id'' else PNone,
              if py_truthy (args_get (args req) ''semester_id'') then args_get (args req) ''semester_id'' else PNone]"
  obtain res t where c: "call_stored_procedure d proc_generate_teacher_summary ?ps = (res, t)"
    by (cases "call_stored_procedure d proc_generate_teacher_summary ?ps")
  from sql_texts_call_stored_procedure [of d proc_generate_teacher_summary ?ps] c
  have "sql_texts t = (if connect_error d = None then [proc_generate_teacher_summary] else [])"
    by simp
  with c show ?thesis
    by (cases res) (simp_all add: admin_teacher_summary_def Let_def)
qed

lemma sql_texts_get_dropdown_data:
  "sql_texts (trace (get_dropdown_data d sess)) = dropdown_statements d"
  by (cases "connect_error d")
     (auto simp: get_dropdown_data_def get_db_connection_def dropdown_statements_def Let_def
           split: sum.splits option.splits prod.splits)

lemma sql_texts_handle:
  "sql_texts (trace (handle lib d req sess)) =
     (if endpoint req = ApiDropdowns then dropdown_statements d
      else if reaches_database lib d req sess then fixed_sql (endpoint req) else [])"
  by (cases "endpoint req")
     (simp_all add: handle_def sql_texts_student_register sql_texts_student_login
        sql_texts_admin_login sql_texts_student_dashboard sql_texts_student_feedback
        sql_texts_admin_dashboard sql_texts_admin_teacher_summary sql_texts_get_dropdown_data
        home_def reaches_database_def)

lemma prefix_dropdown_statements: "prefix (dropdown_statements d) (fixed_sql ApiDropdowns)"
  by (simp add: dropdown_statements_def split: option.splits sum.splits)

lemma prefix_sql_texts_handle:
  "prefix (sql_texts (trace (handle lib d req sess))) (fixed_sql (endpoint req))"
  using prefix_dropdown_statements [of d] by (simp add: sql_texts_handle)

subsection \<open>The SQL text does not depend on the request\<close>

lemma prefix_nth: "prefix xs zs \<Longrightarrow> i < length xs \<Longrightarrow> xs ! i = zs ! i"
  by (auto simp: prefix_def nth_append)

text \<open>
  Claim C1. For every endpoint handler and any two requests to it (with any sessions,
  any library and any database behaviour), the texts handed to \<^verbatim>\<open>execute\<close> and
  \<^verbatim>\<open>callproc\<close> form, in each run, an initial segment of the one fixed list of
  statements of that handler; so the i-th text of one run is the i-th text of the
  other. The text never depends on form fields, query arguments, path parameters or
  session ids: these travel in the parameter list of the \<open>Execute\<close> and \<open>Callproc\<close>
  events only.
\<close>

theorem sql_text_is_fixed:
  "endpoint req1 = endpoint req2 \<Longrightarrow>
   prefix (sql_texts (trace (handle lib1 d1 req1 sess1))) (fixed_sql (endpoint req1)) \<and>
   prefix (sql_texts (trace (handle lib2 d2 req2 sess2))) (fixed_sql (endpoint req1)) \<and>
   (\<forall>i. i < length (sql_texts (trace (handle lib1 d1 req1 sess1))) \<longrightarrow>
        i < length (sql_texts (trace (handle lib2 d2 req2 sess2))) \<longrightarrow>
        sql_texts (trace (handle lib1 d1 req1 sess1)) ! i =
        sql_texts (trace (handle lib2 d2 req2 sess2)) ! i)"
proof -
  assume same: "endpoint req1 = endpoint req2"
  have p1: "prefix (sql_texts (trace (handle lib1 d1 req1 sess1))) (fixed_sql (endpoint req1))"
    by (rule prefix_sql_texts_handle)
  have p2: "prefix (sql_texts (trace (handle lib2 d2 req2 sess2))) (fixed_sql (endpoint req1))"
    unfolding same by (rule prefix_sql_texts_handle)
  from p1 p2 show ?thesis
    by (simp add: prefix_nth)
qed

theorem sql_text_is_fixed_witness:
  "endpoint (student_login_req ''R100'' ''pw1'') = endpoint (student_login_req ''R999 OR 1=1'' ''x'') \<and>
   sql_texts (trace (handle demo_lib demo_db (student_login_req ''R100'' ''pw1'') Map.empty))
     = [sql_student_login] \<and>
   sql_texts (trace (handle demo_lib failing_db (student_login_req ''R999 OR 1=1'' ''x'') student_session))
     = [sql_student_login] \<and>
   sql_texts (trace (handle demo_lib demo_db (student_login_req ''R100'' ''pw1'') Map.empty)) ! 0 =
   sql_texts (trace (handle demo_lib failing_db (student_login_req ''R999 OR 1=1'' ''x'') student_session)) ! 0"
proof -
  have same: "endpoint (student_login_req ''R100'' ''pw1'') = endpoint (student_login_req ''R999 OR 1=1'' ''x'')"
    by (simp add: student_login_req_def)
  have a: "sql_texts (trace (handle demo_lib demo_db (student_login_req ''R100'' ''pw1'') Map.empty))
     = [sql_student_login]"
    by (simp add: sql_texts_handle reaches_database_def student_login_req_def demo_db_def)
  have b: "sql_texts (trace (handle demo_lib failing_db (student_login_req ''R999 OR 1=1'' ''x'') student_session))
     = [sql_student_login]"
    by (simp add: sql_texts_handle reaches_database_def student_login_req_def failing_db_def)
  from sql_text_is_fixed [OF same, of demo_lib demo_db Map.empty demo_lib failing_db student_session]
  have "sql_texts (trace (handle demo_lib demo_db (student_login_req ''R100'' ''pw1'') Map.empty)) ! 0 =
   sql_texts (trace (handle demo_lib failing_db (student_login_req ''R999 OR 1=1'' ''x'') student_session)) ! 0"
    by (simp add: a b)
  with same a b show ?thesis by simp
qed

subsection \<open>How many data-access calls a request makes\<close>

lemma length_dropdown_statements:
  "length (dropdown_statements d) \<le> 3"
  "connect_error d = None \<Longrightarrow> run_execute d sql_branches [] = Inr bs \<Longrightarrow>
     run_execute d sql_years [] = Inr ys \<Longrightarrow> length (dropdown_statements d) = 3"
  by (simp_all add: dropdown_statements_def split: option.splits sum.splits)

lemma length_fixed_sql:
  "ep \<noteq> ApiDropdowns \<Longrightarrow> ep \<noteq> Home \<Longrightarrow> length (fixed_sql ep) = 1"
  by (cases ep) simp_all

lemma reaches_database_not_home: "reaches_database lib d req sess \<Longrightarrow> endpoint req \<noteq> Home"
  by (auto simp: reaches_database_def)

text \<open>
  Claim C8, as amended. Every endpoint handler other than \<^verbatim>\<open>GET /api/dropdowns\<close>
  issues at most one data-access call per request: exactly one when the request reaches
  the database, none otherwise (the home page never does). \<^verbatim>\<open>GET /api/dropdowns\<close>
  issues up to three statements, stopping at the first that raises, and exactly three
  on an established connection when the first two do not raise.
\<close>

theorem data_access_call_count:
  "(endpoint req \<noteq> ApiDropdowns \<longrightarrow>
      data_access_calls (trace (handle lib d req sess)) =
        (if reaches_database lib d req sess then 1 else 0)) \<and>
   (endpoint req = ApiDropdowns \<longrightarrow>
      data_access_calls (trace (handle lib d req sess)) = length (dropdown_statements d) \<and>
      length (dropdown_statements d) \<le> 3 \<and>
      (connect_error d = None \<longrightarrow>
       (\<exists>bs. run_execute d sql_branches [] = Inr bs) \<longrightarrow>
       (\<exists>ys. run_execute d sql_years [] = Inr ys) \<longrightarrow>
         data_access_calls (trace (handle lib d req sess)) = 3))"
  by (auto simp: data_access_calls_sql_texts sql_texts_handle length_dropdown_statements
        length_fixed_sql reaches_database_not_home)

lemma demo_dropdown_statements:
  "dropdown_statements demo_db = [sql_branches, sql_years, sql_semesters]"
  by (simp add: dropdown_statements_def demo_db_def)

text \<open>
  The claim as stated (exactly one call for every handler) fails for the dropdown
  endpoint, which runs three \<^verbatim>\<open>SELECT\<close> statements.
\<close>

theorem dropdowns_issue_three_statements:
  "data_access_calls (trace (handle demo_lib demo_db (plain_req ApiDropdowns) Map.empty)) = 3"
  by (simp add: data_access_calls_sql_texts sql_texts_handle plain_req_def
        demo_dropdown_statements)

theorem data_access_call_count_witness:
  "data_access_calls (trace (handle demo_lib demo_db (student_login_req ''R100'' ''pw1'') Map.empty)) = 1 \<and>
   data_access_calls (trace (handle demo_lib demo_db (plain_req StudentDashboard) Map.empty)) = 0 \<and>
   length (dropdown_statements demo_db) = 3"
proof -
  have r: "reaches_database demo_lib demo_db (student_login_req ''R100'' ''pw1'') Map.empty"
    by (simp add: reaches_database_def student_login_req_def demo_db_def)
  have n: "\<not> reaches_database demo_lib demo_db (plain_req StudentDashboard) Map.empty"
    by (simp add: reaches_database_def plain_req_def dict_get_def)
  have e1: "endpoint (student_login_req ''R100'' ''pw1'') \<noteq> ApiDropdowns"
    and e2: "endpoint (plain_req StudentDashboard) \<noteq> ApiDropdowns"
    and e3: "endpoint (plain_req ApiDropdowns) = ApiDropdowns"
    by (simp_all add: student_login_req_def plain_req_def)
  from data_access_call_count [of "student_login_req ''R100'' ''pw1''" demo_lib demo_db Map.empty] e1 r
  have a: "data_access_calls (trace (handle demo_lib demo_db (student_login_req ''R100'' ''pw1'') Map.empty)) = 1"
    by simp
  from data_access_call_count [of "plain_req StudentDashboard" demo_lib demo_db Map.empty] e2 n
  have b: "data_access_calls (trace (handle demo_lib demo_db (plain_req StudentDashboard) Map.empty)) = 0"
    by simp
  from data_access_call_count [of "plain_req ApiDropdowns" demo_lib demo_db Map.empty] e3
  have c: "data_access_calls (trace (handle demo_lib demo_db (plain_req ApiDropdowns) Map.empty))
             = length (dropdown_statements demo_db)"
    by simp
  have "length (dropdown_statements demo_db) = 3"
    by (simp add: demo_dropdown_statements)
  with a b c show ?thesis by simp
qed

subsection \<open>A connection that cannot be established\<close>

lemma get_db_connection_none:
  "connect_error d = Some err \<Longrightarrow> fst (get_db_connection d) = None"
  using get_db_connection_failed [of d err] by auto

lemma student_login_down:
  "connect_error d = Some err \<Longrightarrow> outcome (student_login lib d req sess) = Raised none_has_no_cursor"
  using get_db_connection_failed [of d err] by (auto simp: student_login_def)

lemma admin_login_down:
  "connect_error d = Some err \<Longrightarrow> outcome (admin_login lib d req sess) = Raised none_has_no_cursor"
  using get_db_connection_failed [of d err] by (auto simp: admin_login_def)

lemma admin_dashboard_down:
  "connect_error d = Some err \<Longrightarrow> outcome (admin_dashboard d req sess) = Raised none_has_no_cursor"
  using get_db_connection_failed [of d err] by (auto simp: admin_dashboard_def)

lemma student_dashboard_down:
  "connect_error d = Some err \<Longrightarrow> py_truthy (dict_get sess ''student_id'') \<Longrightarrow>
   outcome (student_dashboard d sess) = Raised none_has_no_cursor"
  using get_db_connection_failed [of d err] by (auto simp: student_dashboard_def)

lemma student_register_down:
  "connect_error d = Some err \<Longrightarrow>
   generate_password_hash lib (dict_get (json req) ''password'') = Inr hp \<Longrightarrow>
   outcome (student_register lib d req sess) = Raised none_has_no_cursor"
  using get_db_connection_failed [of d err] by (auto simp: student_register_def)

lemma get_dropdown_data_down:
  "connect_error d = Some err \<Longrightarrow>
   outcome (get_dropdown_data d sess) =
     Response (PDict [(''error'', PStr ''Database connection failed'')]) 500"
  using get_db_connection_failed [of d err] by (auto simp: get_dropdown_data_def)

lemma admin_teacher_summary_down:
  assumes "connect_error d = Some err"
  shows "outcome (admin_teacher_summary d req sess) = Raised none_has_no_cursor"
proof -
  let ?ps = "[PInt (int (path_id req)),
              if py_truthy (args_get (args req) ''branch_id'') then args_get (args req) ''branch_id'' else PNone,
              if py_truthy (args_get (args req) ''year_id'') then args_get (args req) ''year_id'' else PNone,
              if py_truthy (args_get (args req) ''semester_id'') then args_get (args req) ''semester_id'' else PNone]"
  obtain res t where c: "call_stored_procedure d proc_generate_teacher_summary ?ps = (res, t)"
    by (cases "call_stored_procedure d proc_generate_teacher_summary ?ps")
  with call_stored_procedure_down(1) [OF assms, of proc_generate_teacher_summary ?ps]
  have "res = Inl none_has_no_cursor" by simp
  with c show ?thesis
    by (simp add: admin_teacher_summary_def Let_def)
qed

lemma student_feedback_down:
  assumes "connect_error d = Some err" and "py_truthy (dict_get sess ''student_id'')"
  shows "outcome (student_feedback d req sess) =
           Response (status_message ''error'' (str_exn none_has_no_cursor)) 200"
proof -
  obtain res t where c:
    "call_stored_procedure d proc_submit_feedback (feedback_params req sess) = (res, t)"
    by (cases "call_stored_procedure d proc_submit_feedback (feedback_params req sess)")
  with call_stored_procedure_down(1) [OF assms(1), of proc_submit_feedback "feedback_params req sess"]
  have "res = Inl none_has_no_cursor" by simp
  with c assms(2) show ?thesis
    by (simp add: student_feedback_logged_in)
qed

lemma student_dashboard_no_login:
  "\<not> py_truthy (dict_get sess ''student_id'') \<Longrightarrow> student_dashboard d sess = not_logged_in sess"
  by (simp add: student_dashboard_def)

lemma student_feedback_no_login:
  "\<not> py_truthy (dict_get sess ''student_id'') \<Longrightarrow> student_feedback d req sess = not_logged_in sess"
  by (simp add: student_feedback_def)

text \<open>
  Claim C10, as amended. When the connection cannot be established,
  \<^verbatim>\<open>get_db_connection\<close> returns \<^verbatim>\<open>None\<close> instead of raising. Only
  \<^verbatim>\<open>GET /api/dropdowns\<close> tests for it and answers with status 500. The student login,
  the admin login, the admin dashboard and the teacher summary, the registration (once
  the password is hashed) and the student dashboard (for a logged-in session) call
  \<^verbatim>\<open>cursor\<close> on \<^verbatim>\<open>None\<close> and let the \<^verbatim>\<open>AttributeError\<close> leave the handler. The
  feedback handler, for a logged-in session, catches that \<^verbatim>\<open>AttributeError\<close> and
  answers with the error payload and status 200; the two protected endpoints answer 401
  without a login; the home page does not use the database.
\<close>

theorem connection_failure_outcomes:
  "connect_error d = Some err \<Longrightarrow>
   fst (get_db_connection d) = None \<and>
   (endpoint req = ApiDropdowns \<longrightarrow>
      outcome (handle lib d req sess) =
        Response (PDict [(''error'', PStr ''Database connection failed'')]) 500) \<and>
   (endpoint req \<in> {StudentLogin, AdminLogin, AdminDashboard, AdminTeacherSummary} \<longrightarrow>
      outcome (handle lib d req sess) = Raised none_has_no_cursor) \<and>
   (endpoint req = StudentRegister \<longrightarrow>
      (\<exists>hp. generate_password_hash lib (dict_get (json req) ''password'') = Inr hp) \<longrightarrow>
      outcome (handle lib d req sess) = Raised none_has_no_cursor) \<and>
   (endpoint req = StudentDashboard \<longrightarrow> py_truthy (dict_get sess ''student_id'') \<longrightarrow>
      outcome (handle lib d req sess) = Raised none_has_no_cursor) \<and>
   (endpoint req = StudentFeedback \<longrightarrow> py_truthy (dict_get sess ''student_id'') \<longrightarrow>
      outcome (handle lib d req sess) =
        Response (status_message ''error'' (str_exn none_has_no_cursor)) 200) \<and>
   (endpoint req \<in> {StudentDashboard, StudentFeedback} \<longrightarrow>
      \<not> py_truthy (dict_get sess ''student_id'') \<longrightarrow>
      outcome (handle lib d req sess) =
        Response (status_message ''error'' ''Not logged in'') 401) \<and>
   (endpoint req = Home \<longrightarrow>
      outcome (handle lib d req sess) =
        Response (PStr ''Faculty Feedback System Backend is running!'') 200)"
  by (auto simp: handle_def get_db_connection_none get_dropdown_data_down student_login_down
        admin_login_down admin_dashboard_down admin_teacher_summary_down student_register_down
        student_dashboard_down student_feedback_down home_def
        student_dashboard_no_login student_feedback_no_login not_logged_in_def)

text \<open>
  The claim as stated has every handler but the dropdown one raise. The feedback handler
  does not: its \<^verbatim>\<open>try\<close> encloses \<^verbatim>\<open>call_stored_procedure\<close>, and with it the call
  of \<^verbatim>\<open>cursor\<close> on \<^verbatim>\<open>None\<close>.
\<close>

theorem feedback_catches_missing_connection:
  "outcome (handle demo_lib down_db feedback_req student_session) =
     Response (status_message ''error'' (str_exn none_has_no_cursor)) 200"
proof -
  have "connect_error down_db = Some (2003, ''Can not connect to MySQL server'')"
    by (simp add: down_db_def)
  moreover have "py_truthy (dict_get student_session ''student_id'')"
    by (simp add: student_session_def dict_get_def)
  ultimately show ?thesis
    by (simp add: handle_def feedback_req_def student_feedback_down)
qed

theorem connection_failure_outcomes_witness:
  "connect_error down_db = Some (2003, ''Can not connect to MySQL server'') \<and>
   fst (get_db_connection down_db) = None \<and>
   outcome (handle demo_lib down_db (plain_req ApiDropdowns) Map.empty) =
     Response (PDict [(''error'', PStr ''Database connection failed'')]) 500 \<and>
   outcome (handle demo_lib down_db (student_login_req ''R100'' ''pw1'') Map.empty) =
     Raised none_has_no_cursor \<and>
   outcome (handle demo_lib down_db register_req Map.empty) = Raised none_has_no_cursor"
proof -
  have dn: "connect_error down_db = Some (2003, ''Can not connect to MySQL server'')"
    by (simp add: down_db_def)
  have hp: "\<exists>hp. generate_password_hash demo_lib (dict_get (json register_req) ''password'') = Inr hp"
    by (simp add: register_req_def demo_lib_def dict_get_def)
  from connection_failure_outcomes [OF dn, of "plain_req ApiDropdowns" demo_lib Map.empty]
  have a: "fst (get_db_connection down_db) = None \<and>
     outcome (handle demo_lib down_db (plain_req ApiDropdowns) Map.empty) =
       Response (PDict [(''error'', PStr ''Database connection failed'')]) 500"
    by (simp add: plain_req_def)
  from connection_failure_outcomes [OF dn, of "student_login_req ''R100'' ''pw1''" demo_lib Map.empty]
  have b: "outcome (handle demo_lib down_db (student_login_req ''R100'' ''pw1'') Map.empty) =
     Raised none_has_no_cursor"
    by (simp add: student_login_req_def)
  from connection_failure_outcomes [OF dn, of register_req demo_lib Map.empty] hp
  have c: "outcome (handle demo_lib down_db register_req Map.empty) = Raised none_has_no_cursor"
    by (simp add: register_req_def)
  from dn a b c show ?thesis by simp
qed

subsection \<open>Dropdown data\<close>

text \<open>
  The dropdown handler sorts nothing itself: each of its three statements carries an
  \<^verbatim>\<open>ORDER BY\<close> clause, and the rows of each answer are handed on in the order the
  driver returned them. Whatever order the database gives is the order of the response.
\<close>

lemma get_dropdown_data_forwards_rows:
  assumes "connect_error d = None"
    and "run_execute d sql_branches [] = Inr branches"
    and "run_execute d sql_years [] = Inr years"
    and "run_execute d sql_semesters [] = Inr semesters"
  shows "outcome (get_dropdown_data d sess) =
     Response (PDict [(''branches'', PList (map PDict branches)),
                      (''years'', PList (map PDict years)),
                      (''semesters'', PList (map PDict semesters))]) 200"
  using assms
  by (simp add: get_dropdown_data_def get_db_connection_ok jsonify_rows_def)

end
